theory Spec2Isabelle
  imports Complex_Main
begin

section \<open>Python floats\<close>

text \<open>
  The score and credit columns are \<open>db.Float\<close>, and the request handlers build their
  values with Python's \<open>float(text)\<close>. A float is modelled as an exact rational or one of
  the three special values that \<open>float\<close> also parses (\<open>'inf'\<close>, \<open>'-inf'\<close>, \<open>'nan'\<close>).
  The special values follow IEEE 754: any operation on \<open>NaN\<close> gives \<open>NaN\<close>, every ordered
  comparison with \<open>NaN\<close> is false, \<open>inf - inf\<close> and \<open>0 * inf\<close> are \<open>NaN\<close>.

  A sum, product or quotient of finite values overflows to an infinity when its magnitude
  reaches \<open>2^1024 - 2^970\<close>, the point from which a binary64 result rounds to infinity.
  Below that point the result is kept exact: the rounding of the last binary digit is the
  one thing that is not modelled. A value \<open>Fin r\<close> that is read from a form field or from
  the database stands for a binary64 number, so its magnitude is below that point.
\<close>

datatype pyfloat = Fin rat | PInf | NInf | NaN

definition dbl_limit :: rat where
  "dbl_limit = 2 ^ 1024 - 2 ^ 970"

definition py_result :: "rat \<Rightarrow> pyfloat" where
  "py_result r = (if dbl_limit \<le> r then PInf else if r \<le> - dbl_limit then NInf else Fin r)"

fun py_lt :: "pyfloat \<Rightarrow> pyfloat \<Rightarrow> bool" where
  "py_lt NaN _ = False"
| "py_lt _ NaN = False"
| "py_lt (Fin a) (Fin b) = (a < b)"
| "py_lt (Fin a) PInf = True"
| "py_lt NInf (Fin b) = True"
| "py_lt NInf PInf = True"
| "py_lt _ _ = False"

definition py_gt :: "pyfloat \<Rightarrow> pyfloat \<Rightarrow> bool" where
  "py_gt a b = py_lt b a"

fun py_neg :: "pyfloat \<Rightarrow> pyfloat" where
  "py_neg (Fin a) = Fin (- a)"
| "py_neg PInf = NInf"
| "py_neg NInf = PInf"
| "py_neg NaN = NaN"

fun py_add :: "pyfloat \<Rightarrow> pyfloat \<Rightarrow> pyfloat" where
  "py_add NaN _ = NaN"
| "py_add _ NaN = NaN"
| "py_add (Fin a) (Fin b) = py_result (a + b)"
| "py_add PInf NInf = NaN"
| "py_add NInf PInf = NaN"
| "py_add PInf _ = PInf"
| "py_add _ PInf = PInf"
| "py_add NInf _ = NInf"
| "py_add _ NInf = NInf"

definition py_sub :: "pyfloat \<Rightarrow> pyfloat \<Rightarrow> pyfloat" where
  "py_sub a b = py_add a (py_neg b)"

text \<open>The sign of a float: \<open>1\<close>, \<open>-1\<close>, or \<open>0\<close> for zero and for \<open>NaN\<close>.\<close>

fun py_sgn :: "pyfloat \<Rightarrow> int" where
  "py_sgn (Fin a) = (if 0 < a then 1 else if a < 0 then - 1 else 0)"
| "py_sgn PInf = 1"
| "py_sgn NInf = - 1"
| "py_sgn NaN = 0"

definition py_inf_of_sign :: "int \<Rightarrow> pyfloat" where
  "py_inf_of_sign s = (if 0 < s then PInf else if s < 0 then NInf else NaN)"

fun py_mul :: "pyfloat \<Rightarrow> pyfloat \<Rightarrow> pyfloat" where
  "py_mul NaN _ = NaN"
| "py_mul _ NaN = NaN"
| "py_mul (Fin a) (Fin b) = py_result (a * b)"
| "py_mul a b = py_inf_of_sign (py_sgn a * py_sgn b)"

datatype py_error =
    ValueError
  | AttributeError
  | ZeroDivisionError
  | IntegrityError
  | OverflowError

text \<open>Python's \<open>a / b\<close> on floats raises \<open>ZeroDivisionError\<close> when \<open>b\<close> is zero.\<close>

fun py_truediv :: "pyfloat \<Rightarrow> pyfloat \<Rightarrow> py_error + pyfloat" where
  "py_truediv NaN (Fin b) = (if b = 0 then Inl ZeroDivisionError else Inr NaN)"
| "py_truediv NaN _ = Inr NaN"
| "py_truediv _ NaN = Inr NaN"
| "py_truediv (Fin a) (Fin b) =
     (if b = 0 then Inl ZeroDivisionError else Inr (py_result (a / b)))"
| "py_truediv (Fin a) _ = Inr (Fin 0)"
| "py_truediv a (Fin b) =
     (if b = 0 then Inl ZeroDivisionError else Inr (py_inf_of_sign (py_sgn a * py_sgn (Fin b))))"
| "py_truediv _ _ = Inr NaN"

section \<open>Data model (models.py)\<close>

text \<open>
  One record per table, with the columns the handlers below read or write. The surrogate
  keys of \<open>enrollment\<close> and \<open>grade\<close> and the timestamps are left out: no modelled
  handler reads them. A table is the list of its rows in insertion order, which is the
  order in which SQLite's \<open>.first()\<close> and \<open>.all()\<close> return them. A nullable column is
  an \<open>option\<close>.
\<close>

record enrollment =
  e_student_id :: int
  e_course_id :: int
  e_score :: "pyfloat option"

record course =
  c_id :: int
  c_name :: string
  c_credit :: pyfloat
  c_teacher_id :: "int option"

record grade =
  g_student_id :: int
  g_course_id :: int
  g_score :: "pyfloat option"

text \<open>\<open>u_role\<close>: 0 = student, 1 = teacher, 2 = administrator.\<close>

record user =
  u_id :: int
  u_role :: int

record database =
  enrollments :: "enrollment list"
  courses :: "course list"
  grades :: "grade list"

subsection \<open>Enrollment.grade_point\<close>

text \<open>
  The property \<open>grade_point\<close> replaces the column of the same name in the class body, so
  the value is computed from \<open>score\<close> on every read and never stored.
\<close>

definition grade_point :: "enrollment \<Rightarrow> pyfloat" where
  "grade_point self =
     (case e_score self of
        None \<Rightarrow> Fin 0
      | Some s \<Rightarrow>
          if py_lt s (Fin 60) then Fin 0
          else py_add (Fin 1) (py_mul (py_sub s (Fin 60)) (Fin (1 / 10))))"

section \<open>Request handlers\<close>

subsection \<open>Form fields and queries\<close>

text \<open>
  A numeric form field is modelled by what the handler's \<open>not text\<close> test and Python's
  \<open>float(text)\<close> make of it: \<open>Blank\<close> is a missing or empty field, \<open>Unparsable\<close> a text
  on which \<open>float\<close> raises \<open>ValueError\<close>, and \<open>Parses x\<close> a text that \<open>float\<close> turns
  into \<open>x\<close> (\<open>float('nan')\<close> is \<open>NaN\<close>, \<open>float('inf')\<close> is \<open>PInf\<close>).

  An id field is \<open>None\<close> when it is missing or empty and \<open>Some n\<close> when SQLite reads the
  text as the integer \<open>n\<close> in a comparison with an integer column. Any other text matches
  no row, exactly as an integer that is not in the table does.
\<close>

datatype float_field = Blank | Unparsable | Parses pyfloat

text \<open>SQLite stores a \<open>NaN\<close> that is bound to a statement as \<open>NULL\<close>.\<close>

definition sqlite_float :: "pyfloat \<Rightarrow> pyfloat option" where
  "sqlite_float x = (if x = NaN then None else Some x)"

text \<open>\<open>Enrollment.query.filter_by(student_id=..., course_id=...).first()\<close>\<close>

definition find_enrollment :: "int \<Rightarrow> int \<Rightarrow> enrollment list \<Rightarrow> enrollment option" where
  "find_enrollment sid cid es = find (\<lambda>e. e_student_id e = sid \<and> e_course_id e = cid) es"

text \<open>\<open>Grade.query.filter_by(student_id=..., course_id=...).first()\<close>\<close>

definition find_grade :: "int \<Rightarrow> int \<Rightarrow> grade list \<Rightarrow> grade option" where
  "find_grade sid cid gs = find (\<lambda>g. g_student_id g = sid \<and> g_course_id g = cid) gs"

text \<open>
  Assigning to an attribute of the object that \<open>.first()\<close> returned changes that row, the
  first one that matches, and no other.
\<close>

fun update_first :: "('a \<Rightarrow> bool) \<Rightarrow> ('a \<Rightarrow> 'a) \<Rightarrow> 'a list \<Rightarrow> 'a list" where
  "update_first P f [] = []"
| "update_first P f (x # xs) = (if P x then f x # xs else x # update_first P f xs)"

subsection \<open>teacher.submit_score\<close>

text \<open>
  The handler answers with a JSON object whose \<open>code\<close> is modelled: 403 (no permission),
  400 (a rejected parameter), 404 (no enrollment), 200 (stored). They stand for the
  specification's \<open>PermissionError\<close>, \<open>ValidationError\<close> and \<open>NotFoundError\<close>. The
  database of the result is the committed state; a handler that returns before
  \<open>db.session.commit()\<close> leaves it as it was.
\<close>

definition submit_score ::
  "user \<Rightarrow> int option \<Rightarrow> int option \<Rightarrow> float_field \<Rightarrow> database \<Rightarrow> nat \<times> database" where
  "submit_score current_user student_id course_id new_score db =
     (if u_role current_user \<noteq> 1 then (403, db)
      else case (student_id, course_id) of
        (Some sid, Some cid) \<Rightarrow>
          (case new_score of
             Blank \<Rightarrow> (400, db)
           | Unparsable \<Rightarrow> (400, db)
           | Parses x \<Rightarrow>
               if py_lt x (Fin 0) \<or> py_gt x (Fin 100) then (400, db)
               else
                 (case find_enrollment sid cid (enrollments db) of
                    None \<Rightarrow> (404, db)
                  | Some _ \<Rightarrow>
                      (200,
                       db\<lparr>enrollments :=
                            update_first (\<lambda>e. e_student_id e = sid \<and> e_course_id e = cid)
                              (\<lambda>e. e\<lparr>e_score := sqlite_float x\<rparr>) (enrollments db),
                          grades :=
                            (case find_grade sid cid (grades db) of
                               Some _ \<Rightarrow>
                                 update_first (\<lambda>g. g_student_id g = sid \<and> g_course_id g = cid)
                                   (\<lambda>g. g\<lparr>g_score := sqlite_float x\<rparr>) (grades db)
                             | None \<Rightarrow>
                                 grades db @
                                 [\<lparr>g_student_id = sid, g_course_id = cid,
                                   g_score = sqlite_float x\<rparr>])\<rparr>)))
      | _ \<Rightarrow> (400, db))"

subsection \<open>student.select_course\<close>

text \<open>
  The student handlers answer with a flashed message and a redirect; the reply records
  which message was flashed. An element of \<open>course_ids\<close> is \<open>Some n\<close> when
  \<open>int(course_id)\<close> is \<open>n\<close> and \<open>None\<close> when \<open>int\<close> raises \<open>ValueError\<close>, which the
  handler does not catch: the request ends in a server error and its session is rolled
  back. The session flushes a pending row before the next query, so a row added in one
  iteration is found by the lookup of a later one.

  The lookup binds \<open>int(course_id)\<close> to the statement. SQLite integers have 64 bits, and
  the driver raises \<open>OverflowError\<close> for a Python integer outside that range; the handler
  does not catch this either.
\<close>

definition sqlite_integer :: "int \<Rightarrow> bool" where
  "sqlite_integer n = (- (2 ^ 63) \<le> n \<and> n < 2 ^ 63)"

datatype select_reply =
    No_permission
  | Please_select
  | Selected nat
  | Already_selected
  | Select_error py_error

fun select_loop ::
  "int \<Rightarrow> int option list \<Rightarrow> enrollment list \<Rightarrow> nat \<Rightarrow> py_error + (enrollment list \<times> nat)" where
  "select_loop sid [] es count = Inr (es, count)"
| "select_loop sid (None # course_ids) es count = Inl ValueError"
| "select_loop sid (Some cid # course_ids) es count =
     (if \<not> sqlite_integer cid then Inl OverflowError
      else
        (case find_enrollment sid cid es of
           Some existing \<Rightarrow> select_loop sid course_ids es count
         | None \<Rightarrow>
             select_loop sid course_ids
               (es @ [\<lparr>e_student_id = sid, e_course_id = cid, e_score = None\<rparr>]) (count + 1)))"

definition select_course :: "user \<Rightarrow> int option list \<Rightarrow> database \<Rightarrow> select_reply \<times> database" where
  "select_course current_user course_ids db =
     (if u_role current_user \<noteq> 0 then (No_permission, db)
      else if course_ids = [] then (Please_select, db)
      else
        (case select_loop (u_id current_user) course_ids (enrollments db) 0 of
           Inl err \<Rightarrow> (Select_error err, db)
         | Inr (es, count) \<Rightarrow>
             if count > 0 then (Selected count, db\<lparr>enrollments := es\<rparr>)
             else (Already_selected, db)))"

text \<open>Whether the student already has an enrollment row for the course.\<close>

definition enrolled :: "enrollment list \<Rightarrow> int \<Rightarrow> int \<Rightarrow> bool" where
  "enrolled es sid cid = (find_enrollment sid cid es \<noteq> None)"

subsection \<open>student.student_index and student.course_management\<close>

text \<open>
  \<open>en.course\<close> is the Course row whose id is \<open>en.course_id\<close>, or \<open>None\<close> when there is
  none; reading \<open>.credit\<close> of \<open>None\<close> raises \<open>AttributeError\<close>.
\<close>

definition course_of :: "course list \<Rightarrow> enrollment \<Rightarrow> course option" where
  "course_of cs en = find (\<lambda>c. c_id c = e_course_id en) cs"

fun gpa_loop ::
  "course list \<Rightarrow> enrollment list \<Rightarrow> pyfloat \<Rightarrow> pyfloat \<Rightarrow> py_error + (pyfloat \<times> pyfloat)" where
  "gpa_loop cs [] total_credits total_points = Inr (total_credits, total_points)"
| "gpa_loop cs (en # ens) total_credits total_points =
     (case e_score en of
        None \<Rightarrow> gpa_loop cs ens total_credits total_points
      | Some _ \<Rightarrow>
          (case course_of cs en of
             None \<Rightarrow> Inl AttributeError
           | Some c \<Rightarrow>
               gpa_loop cs ens (py_add total_credits (c_credit c))
                 (py_add total_points (py_mul (grade_point en) (c_credit c)))))"

text \<open>Of the values the index page is rendered with, the course count and the GPA.\<close>

datatype index_reply =
    To_admin_index
  | Index_page nat pyfloat
  | Index_error py_error

definition student_index :: "user \<Rightarrow> database \<Rightarrow> index_reply" where
  "student_index current_user db =
     (if u_role current_user \<noteq> 0 then To_admin_index
      else
        let ens = filter (\<lambda>e. e_student_id e = u_id current_user) (enrollments db) in
        (case gpa_loop (courses db) ens (Fin 0) (Fin 0) of
           Inl err \<Rightarrow> Index_error err
         | Inr (total_credits, total_points) \<Rightarrow>
             if py_gt total_credits (Fin 0) then
               (case py_truediv total_points total_credits of
                  Inl err \<Rightarrow> Index_error err
                | Inr gpa \<Rightarrow> Index_page (length ens) gpa)
             else Index_page (length ens) (Fin 0)))"

text \<open>
  The course page is rendered with all courses, the student's enrollments (whose
  \<open>grade_point\<close> the page shows) and the ids of the selected courses.
\<close>

definition course_management :: "user \<Rightarrow> database \<Rightarrow> course list \<times> enrollment list \<times> int list" where
  "course_management current_user db =
     (let ens = filter (\<lambda>e. e_student_id e = u_id current_user) (enrollments db)
      in (courses db, ens, map e_course_id ens))"

subsection \<open>teacher.delete_course and admin.delete_course\<close>

text \<open>
  \<open>db.session.delete(course)\<close> followed by \<open>commit\<close>. The relationship
  \<open>Course.enrollments\<close> is declared with \<open>cascade="all, delete-orphan"\<close>: the course's
  enrollments are deleted with it. \<open>Course.grades\<close> (the backref of \<open>Grade.course\<close>) is
  declared without a cascade, so the ORM detaches each Grade row of the course by setting
  its \<open>course_id\<close> to \<open>NULL\<close>; the column is \<open>nullable=False\<close>, the flush raises
  \<open>IntegrityError\<close> and nothing is committed.
\<close>

definition session_delete_course :: "int \<Rightarrow> database \<Rightarrow> py_error + database" where
  "session_delete_course cid db =
     (if list_ex (\<lambda>g. g_course_id g = cid) (grades db) then Inl IntegrityError
      else Inr (db\<lparr>courses := filter (\<lambda>c. c_id c \<noteq> cid) (courses db),
                   enrollments := filter (\<lambda>e. e_course_id e \<noteq> cid) (enrollments db)\<rparr>))"

text \<open>Code 500 is the handler's answer to any exception, after \<open>db.session.rollback()\<close>.\<close>

definition delete_course :: "user \<Rightarrow> int option \<Rightarrow> database \<Rightarrow> nat \<times> database" where
  "delete_course current_user course_id db =
     (if u_role current_user \<noteq> 1 then (403, db)
      else case course_id of
        None \<Rightarrow> (400, db)
      | Some cid \<Rightarrow>
          (case find (\<lambda>c. c_id c = cid) (courses db) of
             None \<Rightarrow> (404, db)
           | Some course \<Rightarrow>
               if c_teacher_id course \<noteq> Some (u_id current_user) then (403, db)
               else
                 (case session_delete_course cid db of
                    Inl err \<Rightarrow> (500, db)
                  | Inr db' \<Rightarrow> (200, db'))))"

definition admin_delete_course :: "user \<Rightarrow> int \<Rightarrow> database \<Rightarrow> nat \<times> database" where
  "admin_delete_course current_user course_id db =
     (if u_role current_user \<noteq> 2 then (403, db)
      else
        (case find (\<lambda>c. c_id c = course_id) (courses db) of
           None \<Rightarrow> (404, db)
         | Some course \<Rightarrow>
             (case session_delete_course course_id db of
                Inl err \<Rightarrow> (500, db)
              | Inr db' \<Rightarrow> (200, db'))))"

subsection \<open>teacher.course_manage (POST)\<close>

datatype manage_reply =
    To_dashboard
  | Name_or_credit_empty
  | Credit_negative
  | Credit_not_a_number
  | Publish_failed
  | Published

text \<open>SQLite gives a new row the largest id in use plus one.\<close>

definition new_course_id :: "course list \<Rightarrow> int" where
  "new_course_id cs = fold max (map c_id cs) 0 + 1"

text \<open>
  \<open>course_name\<close> is the text of the field, empty when the field is missing. A credit
  that SQLite stores as \<open>NULL\<close> violates \<open>nullable=False\<close>; the handler catches the
  exception, rolls back and flashes the failure.
\<close>

definition course_manage :: "user \<Rightarrow> string \<Rightarrow> float_field \<Rightarrow> database \<Rightarrow> manage_reply \<times> database" where
  "course_manage current_user course_name course_credit db =
     (if u_role current_user \<noteq> 1 then (To_dashboard, db)
      else if course_name = [] \<or> course_credit = Blank then (Name_or_credit_empty, db)
      else
        (case course_credit of
           Blank \<Rightarrow> (Name_or_credit_empty, db)
         | Unparsable \<Rightarrow> (Credit_not_a_number, db)
         | Parses x \<Rightarrow>
             if py_lt x (Fin 0) then (Credit_negative, db)
             else
               (case sqlite_float x of
                  None \<Rightarrow> (Publish_failed, db)
                | Some credit \<Rightarrow>
                    (Published,
                     db\<lparr>courses := courses db @
                          [\<lparr>c_id = new_course_id (courses db), c_name = course_name,
                            c_credit = credit, c_teacher_id = Some (u_id current_user)\<rparr>]\<rparr>))))"

subsection \<open>The GPA in the specification's words\<close>








section \<open>Grade points\<close>

lemma dbl_limit_large: "1000000 < dbl_limit"
  by (simp add: dbl_limit_def)

lemma py_result_small: "- 1000000 \<le> r \<Longrightarrow> r \<le> 1000000 \<Longrightarrow> py_result r = Fin r"
  using dbl_limit_large by (simp add: py_result_def)

lemma grade_point_finite:
  "e_score e = Some (Fin s) \<Longrightarrow> s \<le> 100 \<Longrightarrow>
     grade_point e = (if s < 60 then Fin 0 else Fin (1 + (s - 60) * (1 / 10)))"
  by (simp add: grade_point_def py_sub_def py_result_small)

lemma grade_point_null: "e_score e = None \<Longrightarrow> grade_point e = Fin 0"
  by (simp add: grade_point_def)

text \<open>
  C1. The grade point of an enrollment depends on its score only. It is 0 when the score
  is absent or below 60, and \<open>1 + (score - 60) * 0.1\<close> when the score lies in [60, 100].
  Score 96 gives 4.6, score 60 gives 1.0 and score 59.9 gives 0.
\<close>

theorem grade_point_of_score:
  "(e_score e = e_score e' \<longrightarrow> grade_point e = grade_point e') \<and>
   (e_score e = None \<longrightarrow> grade_point e = Fin 0) \<and>
   (e_score e = Some (Fin s) \<and> s < 60 \<longrightarrow> grade_point e = Fin 0) \<and>
   (e_score e = Some (Fin s) \<and> 60 \<le> s \<and> s \<le> 100 \<longrightarrow>
      grade_point e = Fin (1 + (s - 60) * (1 / 10))) \<and>
   (e_score e = Some (Fin 96) \<longrightarrow> grade_point e = Fin (46 / 10)) \<and>
   (e_score e = Some (Fin 60) \<longrightarrow> grade_point e = Fin 1) \<and>
   (e_score e = Some (Fin (599 / 10)) \<longrightarrow> grade_point e = Fin 0)"
  by (simp add: grade_point_def py_sub_def py_result_small)

theorem grade_point_of_score_witness:
  "grade_point \<lparr>e_student_id = 1, e_course_id = 2, e_score = Some (Fin 75)\<rparr> =
     grade_point \<lparr>e_student_id = 8, e_course_id = 9, e_score = Some (Fin 75)\<rparr> \<and>
   grade_point \<lparr>e_student_id = 1, e_course_id = 2, e_score = Some (Fin 75)\<rparr> = Fin (5 / 2) \<and>
   grade_point \<lparr>e_student_id = 1, e_course_id = 2, e_score = None\<rparr> = Fin 0 \<and>
   grade_point \<lparr>e_student_id = 1, e_course_id = 2, e_score = Some (Fin 30)\<rparr> = Fin 0"
proof -
  let ?a = "\<lparr>e_student_id = 1, e_course_id = 2, e_score = Some (Fin 75)\<rparr>"
  let ?b = "\<lparr>e_student_id = 8, e_course_id = 9, e_score = Some (Fin 75)\<rparr>"
  let ?n = "\<lparr>e_student_id = 1, e_course_id = 2, e_score = None\<rparr>"
  let ?l = "\<lparr>e_student_id = 1, e_course_id = 2, e_score = Some (Fin 30)\<rparr>"
  have same: "e_score ?a = e_score ?b"
    by simp
  have mid: "e_score ?a = Some (Fin 75) \<and> (60::rat) \<le> 75 \<and> (75::rat) \<le> 100"
    by simp
  have null: "e_score ?n = None"
    by simp
  have low: "e_score ?l = Some (Fin 30) \<and> (30::rat) < 60"
    by simp
  have 1: "grade_point ?a = grade_point ?b"
    using grade_point_of_score [of ?a ?b 75] same by blast
  have 2: "grade_point ?a = Fin (1 + (75 - 60) * (1 / 10))"
    using grade_point_of_score [of ?a ?b 75] mid by blast
  have 3: "grade_point ?n = Fin 0"
    using grade_point_of_score [of ?n ?n 0] null by blast
  have 4: "grade_point ?l = Fin 0"
    using grade_point_of_score [of ?l ?l 30] low by blast
  have 5: "(1::rat) + (75 - 60) * (1 / 10) = 5 / 2"
    by simp
  show ?thesis
    using 1 2 3 4 unfolding 5 by blast
qed

text \<open>
  C7, as stated: every score in [0, 100] has a grade point of at most 4.6. Score 100 lies
  in the range and has grade point 5.0.
\<close>

theorem grade_point_above_4_6:
  "grade_point \<lparr>e_student_id = 1, e_course_id = 1, e_score = Some (Fin 100)\<rparr> = Fin 5 \<and>
   \<not> (5::rat) \<le> 46 / 10"
  by (simp add: grade_point_def py_sub_def py_result_small)

text \<open>
  C7, amended: every score in [0, 100] has a grade point between 0.0 and 5.0, and 5.0 is
  the grade point of score 100.
\<close>

theorem grade_point_range:
  "(e_score e = Some (Fin s) \<and> 0 \<le> s \<and> s \<le> 100 \<longrightarrow>
      (\<exists>g. grade_point e = Fin g \<and> 0 \<le> g \<and> g \<le> 5)) \<and>
   (e_score e = Some (Fin 100) \<longrightarrow> grade_point e = Fin 5)"
  by (simp add: grade_point_def py_sub_def py_result_small)

theorem grade_point_range_witness:
  "\<exists>g. grade_point \<lparr>e_student_id = 1, e_course_id = 1, e_score = Some (Fin 88)\<rparr> = Fin g \<and>
       0 \<le> g \<and> g \<le> 5"
  using grade_point_range [of "\<lparr>e_student_id = 1, e_course_id = 1, e_score = Some (Fin 88)\<rparr>" 88]
  by simp

section \<open>Score submission\<close>

subsection \<open>Queries and in-place updates\<close>





lemma filter_update_first_length:
  "(\<And>x. P x \<Longrightarrow> P (f x)) \<Longrightarrow> length (filter P (update_first P f xs)) = length (filter P xs)"
  by (induction xs) auto

lemma submit_score_success:
  assumes "submit_score u student_id course_id new_score d = (200, d')"
  shows "\<exists>sid cid x e0.
           student_id = Some sid \<and> course_id = Some cid \<and> new_score = Parses x \<and>
           u_role u = 1 \<and> \<not> py_lt x (Fin 0) \<and> \<not> py_gt x (Fin 100) \<and>
           find_enrollment sid cid (enrollments d) = Some e0 \<and>
           d' = d\<lparr>enrollments :=
                            update_first (\<lambda>e. e_student_id e = sid \<and> e_course_id e = cid)
                              (\<lambda>e. e\<lparr>e_score := sqlite_float x\<rparr>) (enrollments d),
                          grades :=
                            (case find_grade sid cid (grades d) of
                               Some _ \<Rightarrow>
                                 update_first (\<lambda>g. g_student_id g = sid \<and> g_course_id g = cid)
                                   (\<lambda>g. g\<lparr>g_score := sqlite_float x\<rparr>) (grades d)
                             | None \<Rightarrow>
                                 grades d @
                                 [\<lparr>g_student_id = sid, g_course_id = cid,
                                   g_score = sqlite_float x\<rparr>])\<rparr>"
  using assms
  by (auto simp: submit_score_def split: if_splits option.splits float_field.splits prod.splits)



lemma filter_none_of_find: "find P xs = None \<Longrightarrow> filter P xs = []"
  by (induction xs) (auto split: if_splits)


lemma filter_update_first_other:
  "(\<And>x. Q (f x) = Q x) \<Longrightarrow> length (filter Q (update_first P f xs)) = length (filter Q xs)"
  by (induction xs) auto

subsection \<open>Rejected submissions\<close>

lemma py_range_finite:
  "(py_lt (Fin s) (Fin 0) \<or> py_gt (Fin s) (Fin 100)) = (s < 0 \<or> 100 < s)"
  by (simp add: py_gt_def)

lemma submit_score_rejects_invalid:
  assumes "u_role u = 1"
    and "new_score = Blank \<or> new_score = Unparsable \<or>
         (\<exists>x. new_score = Parses x \<and> (py_lt x (Fin 0) \<or> py_gt x (Fin 100)))"
  shows "submit_score u student_id course_id new_score d = (400, d)"
  using assms by (auto simp: submit_score_def split: option.splits)

lemma submit_score_rejects_out_of_range:
  assumes "u_role u = 1" and "s < 0 \<or> 100 < s"
  shows "submit_score u student_id course_id (Parses (Fin s)) d = (400, d)"
  using assms submit_score_rejects_invalid [of u "Parses (Fin s)"] py_range_finite [of s]
  by blast

lemma submit_score_rejects_infinite:
  assumes "u_role u = 1" and "x = PInf \<or> x = NInf"
  shows "submit_score u student_id course_id (Parses x) d = (400, d)"
  using assms by (auto simp: submit_score_def py_gt_def split: option.splits)

lemma submit_score_no_enrollment:
  assumes "u_role u = 1" and "\<not> py_lt x (Fin 0)" and "\<not> py_gt x (Fin 100)"
    and "find_enrollment sid cid (enrollments d) = None"
  shows "submit_score u (Some sid) (Some cid) (Parses x) d = (404, d)"
  using assms by (simp add: submit_score_def)

lemma submit_score_failure_keeps_state:
  assumes "fst (submit_score u student_id course_id new_score d) \<noteq> 200"
  shows "snd (submit_score u student_id course_id new_score d) = d"
  using assms
  by (auto simp: submit_score_def split: if_splits option.splits float_field.splits)

text \<open>
  C3. A score that is no number or lies outside [0, 100] is to be rejected with
  \<open>ValidationError\<close>, and no Grade row is to be created. The text \<open>nan\<close> is accepted by
  \<open>float\<close>, and both range tests \<open>new_score < 0\<close> and \<open>new_score > 100\<close> are false for it:
  the handler answers 200, replaces the stored score 80 by \<open>NULL\<close> and creates a Grade row.
\<close>

theorem submit_score_accepts_nan:
  "submit_score \<lparr>u_id = 7, u_role = 1\<rparr> (Some 3) (Some 5) (Parses NaN)
     \<lparr>enrollments = [\<lparr>e_student_id = 3, e_course_id = 5, e_score = Some (Fin 80)\<rparr>],
      courses = [\<lparr>c_id = 5, c_name = ''Algebra'', c_credit = Fin 3, c_teacher_id = Some 7\<rparr>],
      grades = []\<rparr> =
   (200,
    \<lparr>enrollments = [\<lparr>e_student_id = 3, e_course_id = 5, e_score = None\<rparr>],
     courses = [\<lparr>c_id = 5, c_name = ''Algebra'', c_credit = Fin 3, c_teacher_id = Some 7\<rparr>],
     grades = [\<lparr>g_student_id = 3, g_course_id = 5, g_score = None\<rparr>]\<rparr>)"
  by (simp add: submit_score_def py_gt_def find_enrollment_def find_grade_def sqlite_float_def)

subsection \<open>Accepted submissions\<close>

lemma submit_score_keeps_grades_unique:
  assumes "submit_score u student_id course_id new_score d = (c, d')"
    and "length (filter (\<lambda>g. g_student_id g = s \<and> g_course_id g = k) (grades d)) \<le> 1"
  shows "length (filter (\<lambda>g. g_student_id g = s \<and> g_course_id g = k) (grades d')) \<le> 1"
proof (cases "c = 200")
  case False
  with assms(1) submit_score_failure_keeps_state [of u student_id course_id new_score d]
  have "d' = d" by simp
  with assms(2) show ?thesis by simp
next
  case True
  with assms(1) submit_score_success [of u student_id course_id new_score d d']
  obtain sid cid x where
    d': "grades d' =
          (case find_grade sid cid (grades d) of
             Some _ \<Rightarrow>
               update_first (\<lambda>g. g_student_id g = sid \<and> g_course_id g = cid)
                 (\<lambda>g. g\<lparr>g_score := sqlite_float x\<rparr>) (grades d)
           | None \<Rightarrow>
               grades d @
               [\<lparr>g_student_id = sid, g_course_id = cid, g_score = sqlite_float x\<rparr>])"
    by auto
  let ?P = "\<lambda>g. g_student_id g = s \<and> g_course_id g = k"
  show ?thesis
  proof (cases "find_grade sid cid (grades d)")
    case None
    then have none: "filter (\<lambda>g. g_student_id g = sid \<and> g_course_id g = cid) (grades d) = []"
      by (simp add: find_grade_def filter_none_of_find)
    show ?thesis
    proof (cases "s = sid \<and> k = cid")
      case True
      with none None show ?thesis by (simp add: d')
    next
      case False
      with None assms(2) show ?thesis by (auto simp: d')
    qed
  next
    case (Some g0)
    have "length (filter ?P (update_first (\<lambda>g. g_student_id g = sid \<and> g_course_id g = cid)
            (\<lambda>g. g\<lparr>g_score := sqlite_float x\<rparr>) (grades d))) = length (filter ?P (grades d))"
      by (rule filter_update_first_other) simp
    with Some assms(2) show ?thesis by (simp add: d')
  qed
qed





section \<open>Course selection\<close>

lemma enrolled_iff:
  "enrolled es sid cid = (\<exists>e \<in> set es. e_student_id e = sid \<and> e_course_id e = cid)"
  by (auto simp: enrolled_def find_enrollment_def find_None_iff)

lemma select_loop_all_enrolled:
  "\<forall>c \<in> set cs. sqlite_integer c \<and> enrolled es sid c \<Longrightarrow>
     select_loop sid (map Some cs) es n = Inr (es, n)"
  by (induction cs) (auto simp: enrolled_def)

lemma select_loop_result:
  "\<forall>c \<in> set cs. sqlite_integer c \<Longrightarrow>
   \<exists>new. select_loop sid (map Some cs) es n = Inr (es @ new, n + length new) \<and>
         distinct (map e_course_id new) \<and>
         set (map e_course_id new) = {c \<in> set cs. \<not> enrolled es sid c} \<and>
         (\<forall>e \<in> set new. e_student_id e = sid \<and> e_score e = None)"
proof (induction cs arbitrary: es n)
  case Nil
  show ?case by simp
next
  case (Cons c cs)
  from Cons.prems have c: "sqlite_integer c" and rest: "\<forall>c \<in> set cs. sqlite_integer c"
    by simp_all
  note IH = Cons.IH [OF rest]
  show ?case
  proof (cases "enrolled es sid c")
    case True
    from IH [of es n] obtain new where
      new: "select_loop sid (map Some cs) es n = Inr (es @ new, n + length new)"
        "distinct (map e_course_id new)"
        "set (map e_course_id new) = {c \<in> set cs. \<not> enrolled es sid c}"
        "\<forall>e \<in> set new. e_student_id e = sid \<and> e_score e = None"
      by blast
    have "{x \<in> set (c # cs). \<not> enrolled es sid x} = {x \<in> set cs. \<not> enrolled es sid x}"
      using True by auto
    with new True c show ?thesis
      by (auto simp: enrolled_def intro!: exI [of _ new])
  next
    case False
    let ?row = "\<lparr>e_student_id = sid, e_course_id = c, e_score = None\<rparr>"
    from IH [of "es @ [?row]" "n + 1"] obtain new where
      new: "select_loop sid (map Some cs) (es @ [?row]) (n + 1) =
              Inr ((es @ [?row]) @ new, (n + 1) + length new)"
        "distinct (map e_course_id new)"
        "set (map e_course_id new) = {x \<in> set cs. \<not> enrolled (es @ [?row]) sid x}"
        "\<forall>e \<in> set new. e_student_id e = sid \<and> e_score e = None"
      by blast
    have en: "enrolled (es @ [?row]) sid x = (enrolled es sid x \<or> x = c)" for x
      by (auto simp: enrolled_iff)
    have ids: "set (map e_course_id (?row # new)) = {x \<in> set (c # cs). \<not> enrolled es sid x}"
      using new(3) False by (auto simp: en)
    have "c \<notin> set (map e_course_id new)"
      using new(3) by (simp add: en)
    then have dist: "distinct (map e_course_id (?row # new))"
      using new(2) by simp
    have run: "select_loop sid (map Some (c # cs)) es n =
                 Inr (es @ (?row # new), n + length (?row # new))"
      using False new(1) c by (simp add: enrolled_def)
    show ?thesis
      apply (rule exI [of _ "?row # new"])
      using run dist ids new(4) by simp
  qed
qed

lemma count_distinct_key:
  "distinct (map f xs) \<Longrightarrow> length (filter (\<lambda>x. f x = k) xs) = (if k \<in> f ` set xs then 1 else 0)"
  by (induction xs) auto


lemma count_pair_new:
  assumes "distinct (map e_course_id new)" and "\<forall>e \<in> set new. e_student_id e = sid"
  shows "length (filter (\<lambda>e. e_student_id e = sid \<and> e_course_id e = c) new) =
           (if c \<in> set (map e_course_id new) then 1 else 0)"
proof -
  have "filter (\<lambda>e. e_student_id e = sid \<and> e_course_id e = c) new =
          filter (\<lambda>e. e_course_id e = c) new"
    using assms(2) by (intro filter_cong) auto
  then show ?thesis
    using count_distinct_key [OF assms(1), of c] by simp
qed

lemma count_pair_enrolled:
  "enrolled es sid c = (0 < length (filter (\<lambda>e. e_student_id e = sid \<and> e_course_id e = c) es))"
  by (auto simp: enrolled_iff filter_empty_conv)


lemma select_course_bad_id:
  assumes "u_role u = 0"
    and "None \<in> set course_ids \<or> (\<exists>c. Some c \<in> set course_ids \<and> \<not> sqlite_integer c)"
  shows "\<exists>err. select_course u course_ids d = (Select_error err, d)"
proof -
  have "\<exists>err. select_loop sid course_ids es n = Inl err"
    if "None \<in> set course_ids \<or> (\<exists>c. Some c \<in> set course_ids \<and> \<not> sqlite_integer c)"
    for sid es n
    using that
  proof (induction course_ids arbitrary: es n)
    case Nil
    then show ?case by simp
  next
    case (Cons x xs)
    show ?case
    proof (cases x)
      case None
      then show ?thesis by simp
    next
      case (Some c)
      show ?thesis
      proof (cases "sqlite_integer c")
        case False
        with Some show ?thesis by simp
      next
        case True
        with Some Cons.prems
        have "None \<in> set xs \<or> (\<exists>c. Some c \<in> set xs \<and> \<not> sqlite_integer c)"
          by auto
        from Cons.IH [OF this] Some True show ?thesis
          by (auto split: option.splits)
      qed
    qed
  qed
  with assms obtain err where
    "select_loop (u_id u) course_ids (enrollments d) 0 = Inl err"
    by blast
  with assms have "course_ids \<noteq> []"
    by auto
  with assms \<open>select_loop (u_id u) course_ids (enrollments d) 0 = Inl err\<close> show ?thesis
    by (auto simp: select_course_def)
qed

lemma select_course_not_student:
  "u_role u \<noteq> 0 \<Longrightarrow> select_course u course_ids d = (No_permission, d)"
  by (simp add: select_course_def)

text \<open>
  C5, as stated: for every list of course ids the handler creates the missing
  enrollments and reports their number. The id \<open>2^63\<close> is an integer that no SQLite
  column can hold: the lookup raises \<open>OverflowError\<close>, the request ends in a server
  error, and neither a row nor a count comes out of it.
\<close>

theorem select_course_id_overflow:
  "select_course \<lparr>u_id = 3, u_role = 0\<rparr> [Some 9223372036854775808]
     \<lparr>enrollments = [], courses = [], grades = []\<rparr> =
   (Select_error OverflowError, \<lparr>enrollments = [], courses = [], grades = []\<rparr>)"
  by (simp add: select_course_def sqlite_integer_def)

text \<open>
  C5, amended: for a student and a list of course ids that are 64-bit integers, the
  handler appends one enrollment with a null score for each distinct id of the list that
  the student is not yet enrolled in, and nothing else; the flashed count is the number
  of rows created. Afterwards every selected course that had no row has exactly one, a
  course that had rows has as many as before, and selecting the same ids again creates
  nothing. (A list with any other id creates nothing: \<open>select_course_bad_id\<close>.)
\<close>

theorem select_course_enrolls_once:
  assumes student: "u_role u = 0"
    and ids64: "\<forall>c \<in> set cs. sqlite_integer c"
  shows "\<exists>new.
     select_course u (map Some cs) d =
       (if cs = [] then Please_select
        else if new = [] then Already_selected else Selected (length new),
        d\<lparr>enrollments := enrollments d @ new\<rparr>) \<and>
     distinct (map e_course_id new) \<and>
     set (map e_course_id new) = {c \<in> set cs. \<not> enrolled (enrollments d) (u_id u) c} \<and>
     (\<forall>e \<in> set new. e_student_id e = u_id u \<and> e_score e = None) \<and>
     (\<forall>c \<in> set cs.
        length (filter (\<lambda>e. e_student_id e = u_id u \<and> e_course_id e = c)
                  (enrollments d @ new)) =
        max 1 (length (filter (\<lambda>e. e_student_id e = u_id u \<and> e_course_id e = c)
                         (enrollments d)))) \<and>
     select_course u (map Some cs) (d\<lparr>enrollments := enrollments d @ new\<rparr>) =
       (if cs = [] then Please_select else Already_selected,
        d\<lparr>enrollments := enrollments d @ new\<rparr>)"
proof -
  let ?sid = "u_id u" and ?es = "enrollments d"
  from select_loop_result [OF ids64, of ?sid ?es 0] obtain new where
    run: "select_loop ?sid (map Some cs) ?es 0 = Inr (?es @ new, length new)" and
    dist: "distinct (map e_course_id new)" and
    ids: "set (map e_course_id new) = {c \<in> set cs. \<not> enrolled ?es ?sid c}" and
    rows: "\<forall>e \<in> set new. e_student_id e = ?sid \<and> e_score e = None"
    by auto
  have first: "select_course u (map Some cs) d =
       (if cs = [] then Please_select
        else if new = [] then Already_selected else Selected (length new),
        d\<lparr>enrollments := ?es @ new\<rparr>)"
  proof (cases "cs = []")
    case True
    with ids have "new = []" by simp
    with True student show ?thesis by (simp add: select_course_def)
  next
    case False
    with student run show ?thesis by (simp add: select_course_def)
  qed
  have count: "length (filter (\<lambda>e. e_student_id e = ?sid \<and> e_course_id e = c) (?es @ new)) =
        max 1 (length (filter (\<lambda>e. e_student_id e = ?sid \<and> e_course_id e = c) ?es))"
    if c: "c \<in> set cs" for c
  proof (cases "enrolled ?es ?sid c")
    case True
    then have "c \<notin> set (map e_course_id new)"
      using ids by simp
    with count_pair_new [OF dist, of ?sid c] rows
    have "length (filter (\<lambda>e. e_student_id e = ?sid \<and> e_course_id e = c) new) = 0"
      by simp
    moreover from True
    have "0 < length (filter (\<lambda>e. e_student_id e = ?sid \<and> e_course_id e = c) ?es)"
      by (simp only: count_pair_enrolled)
    ultimately show ?thesis
      unfolding filter_append length_append by arith
  next
    case False
    then have "c \<in> set (map e_course_id new)"
      using ids c by simp
    with count_pair_new [OF dist, of ?sid c] rows
    have "length (filter (\<lambda>e. e_student_id e = ?sid \<and> e_course_id e = c) new) = 1"
      by simp
    moreover from False
    have "length (filter (\<lambda>e. e_student_id e = ?sid \<and> e_course_id e = c) ?es) = 0"
      by (simp add: count_pair_enrolled)
    ultimately show ?thesis
      unfolding filter_append length_append by arith
  qed
  have all: "\<forall>c \<in> set cs. sqlite_integer c \<and> enrolled (?es @ new) ?sid c"
  proof
    fix c
    assume c: "c \<in> set cs"
    have "enrolled (?es @ new) ?sid c"
    proof (cases "enrolled ?es ?sid c")
      case True
      then show ?thesis by (auto simp: enrolled_iff)
    next
      case False
      with ids c have "c \<in> set (map e_course_id new)" by simp
      then obtain e where "e \<in> set new" "e_course_id e = c" by auto
      with rows show ?thesis by (auto simp: enrolled_iff)
    qed
    with c ids64 show "sqlite_integer c \<and> enrolled (?es @ new) ?sid c"
      by simp
  qed
  have second: "select_course u (map Some cs) (d\<lparr>enrollments := ?es @ new\<rparr>) =
       (if cs = [] then Please_select else Already_selected, d\<lparr>enrollments := ?es @ new\<rparr>)"
    using student select_loop_all_enrolled [OF all, of 0]
    by (simp add: select_course_def)
  show ?thesis
    apply (rule exI [of _ new])
    using first dist ids rows count second by blast
qed

theorem select_course_enrolls_once_witness:
  "select_course \<lparr>u_id = 3, u_role = 0\<rparr> [Some 5, Some 6, Some 5]
     \<lparr>enrollments = [\<lparr>e_student_id = 3, e_course_id = 6, e_score = Some (Fin 70)\<rparr>],
      courses = [], grades = []\<rparr> =
     (Selected 1,
      \<lparr>enrollments = [\<lparr>e_student_id = 3, e_course_id = 6, e_score = Some (Fin 70)\<rparr>,
                      \<lparr>e_student_id = 3, e_course_id = 5, e_score = None\<rparr>],
       courses = [], grades = []\<rparr>) \<and>
   select_course \<lparr>u_id = 3, u_role = 0\<rparr> [Some 5, Some 6, Some 5]
     \<lparr>enrollments = [\<lparr>e_student_id = 3, e_course_id = 6, e_score = Some (Fin 70)\<rparr>,
                     \<lparr>e_student_id = 3, e_course_id = 5, e_score = None\<rparr>],
      courses = [], grades = []\<rparr> =
     (Already_selected,
      \<lparr>enrollments = [\<lparr>e_student_id = 3, e_course_id = 6, e_score = Some (Fin 70)\<rparr>,
                      \<lparr>e_student_id = 3, e_course_id = 5, e_score = None\<rparr>],
       courses = [], grades = []\<rparr>)"
proof -
  let ?u = "\<lparr>u_id = 3, u_role = 0\<rparr>"
  let ?d = "\<lparr>enrollments = [\<lparr>e_student_id = 3, e_course_id = 6, e_score = Some (Fin 70)\<rparr>],
             courses = [], grades = []\<rparr>"
  let ?d' = "\<lparr>enrollments = [\<lparr>e_student_id = 3, e_course_id = 6, e_score = Some (Fin 70)\<rparr>,
                             \<lparr>e_student_id = 3, e_course_id = 5, e_score = None\<rparr>],
              courses = [], grades = []\<rparr>"
  have student: "u_role ?u = 0"
    by simp
  have ids64: "\<forall>c \<in> set [5, 6, 5]. sqlite_integer c"
    by (simp add: sqlite_integer_def)
  have run: "select_course ?u (map Some [5, 6, 5]) ?d = (Selected 1, ?d')"
    by (simp add: select_course_def find_enrollment_def sqlite_integer_def)
  from select_course_enrolls_once [OF student ids64, of ?d] obtain new where
    first: "select_course ?u (map Some [5, 6, 5]) ?d =
              (if new = [] then Already_selected else Selected (length new),
               ?d\<lparr>enrollments := enrollments ?d @ new\<rparr>)" and
    again: "select_course ?u (map Some [5, 6, 5]) (?d\<lparr>enrollments := enrollments ?d @ new\<rparr>) =
              (Already_selected, ?d\<lparr>enrollments := enrollments ?d @ new\<rparr>)"
    by auto
  from first run have "?d\<lparr>enrollments := enrollments ?d @ new\<rparr> = ?d'"
    by simp
  with again have "select_course ?u (map Some [5, 6, 5]) ?d' = (Already_selected, ?d')"
    by simp
  with run show ?thesis
    by simp
qed

section \<open>Grade point average\<close>








lemma student_index_overflow:
  "student_index \<lparr>u_id = 3, u_role = 0\<rparr>
     \<lparr>enrollments = [\<lparr>e_student_id = 3, e_course_id = 1, e_score = Some (Fin 90)\<rparr>],
      courses = [\<lparr>c_id = 1, c_name = ''Algebra'', c_credit = Fin (10 ^ 308), c_teacher_id = Some 7\<rparr>],
      grades = []\<rparr> = Index_page 1 PInf"
proof -
  have gp: "grade_point \<lparr>e_student_id = 3, e_course_id = 1, e_score = Some (Fin 90)\<rparr> = Fin 4"
    by (simp add: grade_point_finite)
  show ?thesis
    by (simp add: student_index_def course_of_def gp py_gt_def py_inf_of_sign_def
          py_result_def dbl_limit_def)
qed

lemma student_index_missing_course:
  "student_index \<lparr>u_id = 3, u_role = 0\<rparr>
     \<lparr>enrollments = [\<lparr>e_student_id = 3, e_course_id = 9, e_score = Some (Fin 90)\<rparr>],
      courses = [], grades = []\<rparr> = Index_error AttributeError"
  by (simp add: student_index_def course_of_def)




section \<open>The Grade table is never read\<close>

text \<open>
  C10. Two databases with the same Enrollment and Course rows give the same index page
  (course count and GPA), the same course page and the same grade points on it, however
  their Grade rows differ.
\<close>

theorem reports_ignore_grade_table:
  "enrollments d = enrollments d' \<and> courses d = courses d' \<longrightarrow>
     student_index u d = student_index u d' \<and>
     course_management u d = course_management u d' \<and>
     map grade_point (fst (snd (course_management u d))) =
       map grade_point (fst (snd (course_management u d')))"
  by (simp add: student_index_def course_management_def)

theorem reports_ignore_grade_table_witness:
  "student_index \<lparr>u_id = 3, u_role = 0\<rparr>
     \<lparr>enrollments = [\<lparr>e_student_id = 3, e_course_id = 1, e_score = Some (Fin 90)\<rparr>],
      courses = [\<lparr>c_id = 1, c_name = ''Algebra'', c_credit = Fin 3, c_teacher_id = Some 7\<rparr>],
      grades = []\<rparr> =
   student_index \<lparr>u_id = 3, u_role = 0\<rparr>
     \<lparr>enrollments = [\<lparr>e_student_id = 3, e_course_id = 1, e_score = Some (Fin 90)\<rparr>],
      courses = [\<lparr>c_id = 1, c_name = ''Algebra'', c_credit = Fin 3, c_teacher_id = Some 7\<rparr>],
      grades = [\<lparr>g_student_id = 3, g_course_id = 1, g_score = Some (Fin 10)\<rparr>]\<rparr>"
proof -
  let ?es = "[\<lparr>e_student_id = 3, e_course_id = 1, e_score = Some (Fin 90)\<rparr>]"
  let ?cs = "[\<lparr>c_id = 1, c_name = ''Algebra'', c_credit = Fin 3, c_teacher_id = Some 7\<rparr>]"
  let ?d = "\<lparr>enrollments = ?es, courses = ?cs, grades = []\<rparr>"
  let ?d' = "\<lparr>enrollments = ?es, courses = ?cs,
              grades = [\<lparr>g_student_id = 3, g_course_id = 1, g_score = Some (Fin 10)\<rparr>]\<rparr>"
  have same: "enrollments ?d = enrollments ?d' \<and> courses ?d = courses ?d'"
    by simp
  from reports_ignore_grade_table [of ?d ?d' "\<lparr>u_id = 3, u_role = 0\<rparr>"] same
  show ?thesis
    by blast
qed

section \<open>Who may submit scores\<close>

text \<open>
  C9, as stated: an administrator may submit scores. The handler's gate is
  \<open>current_user.role != 1\<close>, so an administrator (role 2) is answered 403 and nothing is
  stored.
\<close>

theorem submit_score_admin_refused:
  "submit_score \<lparr>u_id = 9, u_role = 2\<rparr> (Some 3) (Some 5) (Parses (Fin 90))
     \<lparr>enrollments = [\<lparr>e_student_id = 3, e_course_id = 5, e_score = None\<rparr>],
      courses = [\<lparr>c_id = 5, c_name = ''Algebra'', c_credit = Fin 3, c_teacher_id = Some 7\<rparr>],
      grades = []\<rparr> =
   (403,
    \<lparr>enrollments = [\<lparr>e_student_id = 3, e_course_id = 5, e_score = None\<rparr>],
     courses = [\<lparr>c_id = 5, c_name = ''Algebra'', c_credit = Fin 3, c_teacher_id = Some 7\<rparr>],
     grades = []\<rparr>)"
  by (simp add: submit_score_def)

text \<open>
  C9, amended: score submission is authorized exactly for the role teacher. A teacher
  always gets past the permission check, whatever the parameters; every other role,
  student and administrator alike, is answered 403 and the database stays as it was.
\<close>

theorem submit_score_teacher_only:
  "(u_role u = 1 \<longrightarrow> fst (submit_score u student_id course_id new_score d) \<noteq> 403) \<and>
   (u_role u \<noteq> 1 \<longrightarrow> submit_score u student_id course_id new_score d = (403, d))"
  by (auto simp: submit_score_def split: option.splits float_field.splits)

theorem submit_score_teacher_only_witness:
  "fst (submit_score \<lparr>u_id = 7, u_role = 1\<rparr> (Some 3) (Some 5) (Parses (Fin 90))
          \<lparr>enrollments = [], courses = [], grades = []\<rparr>) \<noteq> 403 \<and>
   submit_score \<lparr>u_id = 3, u_role = 0\<rparr> (Some 3) (Some 5) (Parses (Fin 90))
      \<lparr>enrollments = [], courses = [], grades = []\<rparr> =
     (403, \<lparr>enrollments = [], courses = [], grades = []\<rparr>)"
proof -
  have t: "u_role \<lparr>u_id = 7, u_role = 1\<rparr> = 1" and s: "u_role \<lparr>u_id = 3, u_role = 0\<rparr> \<noteq> 1"
    by simp_all
  show ?thesis
    using submit_score_teacher_only
            [of "\<lparr>u_id = 7, u_role = 1\<rparr>" "Some 3" "Some 5" "Parses (Fin 90)"
                "\<lparr>enrollments = [], courses = [], grades = []\<rparr>"]
          submit_score_teacher_only
            [of "\<lparr>u_id = 3, u_role = 0\<rparr>" "Some 3" "Some 5" "Parses (Fin 90)"
                "\<lparr>enrollments = [], courses = [], grades = []\<rparr>"]
          t s
    by blast
qed

section \<open>Course deletion\<close>

lemma delete_course_keeps_grades:
  "grades (snd (delete_course u course_id d)) = grades d"
  by (auto simp: delete_course_def session_delete_course_def
           split: option.splits sum.splits if_splits)

lemma delete_course_success:
  assumes "delete_course u (Some cid) d = (200, d')"
  shows "\<not> list_ex (\<lambda>g. g_course_id g = cid) (grades d) \<and>
         enrollments d' = filter (\<lambda>e. e_course_id e \<noteq> cid) (enrollments d) \<and>
         courses d' = filter (\<lambda>c. c_id c \<noteq> cid) (courses d) \<and>
         grades d' = grades d"
  using assms
  by (auto simp: delete_course_def session_delete_course_def
           split: option.splits sum.splits if_splits)

lemma delete_course_without_grades:
  "delete_course \<lparr>u_id = 7, u_role = 1\<rparr> (Some 5)
     \<lparr>enrollments = [\<lparr>e_student_id = 3, e_course_id = 5, e_score = None\<rparr>,
                     \<lparr>e_student_id = 3, e_course_id = 6, e_score = None\<rparr>],
      courses = [\<lparr>c_id = 5, c_name = ''Algebra'', c_credit = Fin 3, c_teacher_id = Some 7\<rparr>],
      grades = []\<rparr> =
   (200,
    \<lparr>enrollments = [\<lparr>e_student_id = 3, e_course_id = 6, e_score = None\<rparr>],
     courses = [], grades = []\<rparr>)"
  by (simp add: delete_course_def session_delete_course_def)

lemma admin_delete_course_with_grade:
  "admin_delete_course \<lparr>u_id = 1, u_role = 2\<rparr> 5
     \<lparr>enrollments = [\<lparr>e_student_id = 3, e_course_id = 5, e_score = Some (Fin 90)\<rparr>],
      courses = [\<lparr>c_id = 5, c_name = ''Algebra'', c_credit = Fin 3, c_teacher_id = Some 7\<rparr>],
      grades = [\<lparr>g_student_id = 3, g_course_id = 5, g_score = Some (Fin 90)\<rparr>]\<rparr> =
   (500,
    \<lparr>enrollments = [\<lparr>e_student_id = 3, e_course_id = 5, e_score = Some (Fin 90)\<rparr>],
     courses = [\<lparr>c_id = 5, c_name = ''Algebra'', c_credit = Fin 3, c_teacher_id = Some 7\<rparr>],
     grades = [\<lparr>g_student_id = 3, g_course_id = 5, g_score = Some (Fin 90)\<rparr>]\<rparr>)"
  by (simp add: admin_delete_course_def session_delete_course_def)

text \<open>
  C6. Deleting a course is to remove its enrollments and its Grade rows. The owning
  teacher deletes a course in which one score has been submitted: the Grade row cannot be
  detached, the handler answers 500, and the course, its enrollment and its Grade row are
  all still there. No call of \<open>delete_course\<close> ever removes a Grade row
  (\<open>delete_course_keeps_grades\<close>); the enrollments do cascade when the course has no
  Grade row (\<open>delete_course_success\<close>).
\<close>

theorem delete_course_with_grade:
  "delete_course \<lparr>u_id = 7, u_role = 1\<rparr> (Some 5)
     \<lparr>enrollments = [\<lparr>e_student_id = 3, e_course_id = 5, e_score = Some (Fin 90)\<rparr>],
      courses = [\<lparr>c_id = 5, c_name = ''Algebra'', c_credit = Fin 3, c_teacher_id = Some 7\<rparr>],
      grades = [\<lparr>g_student_id = 3, g_course_id = 5, g_score = Some (Fin 90)\<rparr>]\<rparr> =
   (500,
    \<lparr>enrollments = [\<lparr>e_student_id = 3, e_course_id = 5, e_score = Some (Fin 90)\<rparr>],
     courses = [\<lparr>c_id = 5, c_name = ''Algebra'', c_credit = Fin 3, c_teacher_id = Some 7\<rparr>],
     grades = [\<lparr>g_student_id = 3, g_course_id = 5, g_score = Some (Fin 90)\<rparr>]\<rparr>)"
  by (simp add: delete_course_def session_delete_course_def)

section \<open>Course creation\<close>

lemma course_manage_rejects:
  assumes "u_role u = 1"
  shows "course_manage u [] credit d = (Name_or_credit_empty, d)"
    and "course_manage u name Blank d = (Name_or_credit_empty, d)"
    and "name \<noteq> [] \<Longrightarrow> course_manage u name Unparsable d = (Credit_not_a_number, d)"
    and "name \<noteq> [] \<Longrightarrow> r < 0 \<Longrightarrow> course_manage u name (Parses (Fin r)) d = (Credit_negative, d)"
  using assms by (simp_all add: course_manage_def)

lemma course_manage_accepts_nonnegative:
  assumes "u_role u = 1" and "name \<noteq> []" and "0 \<le> r"
  shows "course_manage u name (Parses (Fin r)) d =
           (Published,
            d\<lparr>courses := courses d @
                 [\<lparr>c_id = new_course_id (courses d), c_name = name, c_credit = Fin r,
                   c_teacher_id = Some (u_id u)\<rparr>]\<rparr>)"
  using assms by (simp add: course_manage_def sqlite_float_def)

text \<open>
  C8. Creating a course is to fail for every credit outside [0.5, 10], for example 0.1
  or 100. The teacher's form handler only refuses a negative credit: with credit 100 and
  with credit 0.1 it publishes the course.
\<close>

theorem course_manage_accepts_credit_100:
  "course_manage \<lparr>u_id = 7, u_role = 1\<rparr> ''Algebra'' (Parses (Fin 100))
     \<lparr>enrollments = [], courses = [], grades = []\<rparr> =
   (Published,
    \<lparr>enrollments = [],
     courses = [\<lparr>c_id = 1, c_name = ''Algebra'', c_credit = Fin 100, c_teacher_id = Some 7\<rparr>],
     grades = []\<rparr>) \<and>
   course_manage \<lparr>u_id = 7, u_role = 1\<rparr> ''Algebra'' (Parses (Fin (1 / 10)))
     \<lparr>enrollments = [], courses = [], grades = []\<rparr> =
   (Published,
    \<lparr>enrollments = [],
     courses = [\<lparr>c_id = 1, c_name = ''Algebra'', c_credit = Fin (1 / 10), c_teacher_id = Some 7\<rparr>],
     grades = []\<rparr>)"
  by (simp add: course_manage_def sqlite_float_def new_course_id_def)

end
